theory Spec2Isabelle
  imports Complex_Main
begin

chapter \<open>The model\<close>

text \<open>
  The helpers of the UI test suite, as functions over an explicit description of what the
  browser and the application under test answer.

  \<^item> JavaScript numbers that hold durations, pixel coordinates and multipliers are exact reals
    (no rounding, no NaN); attempt counters, \<open>maxRetries\<close>, \<open>minLength\<close>, HTTP statuses and
    viewport sizes are integers.
  \<^item> JavaScript strings are \<open>string\<close>, one \<open>char\<close> per code unit below 256; \<open>length\<close>
    counts code units as \<open>.length\<close> does.
  \<^item> A thrown value is represented by its text, the \<open>${error}\<close> of the template strings.
  \<^item> Console output and screenshots are not part of the model.
\<close>

type_synonym exn = string

section \<open>Numbers and strings\<close>

text \<open>The decimal text of an integer, as a template string renders it.\<close>

fun string_of_nat :: "nat \<Rightarrow> string" where
  "string_of_nat n =
     (if n < 10 then [''0123456789'' ! n]
      else string_of_nat (n div 10) @ [''0123456789'' ! (n mod 10)])"

declare string_of_nat.simps [simp del]

definition string_of_int :: "int \<Rightarrow> string" where
  "string_of_int i =
     (if i < 0 then CHR ''-'' # string_of_nat (nat (- i)) else string_of_nat (nat i))"

text \<open>
  \<open>toLowerCase\<close> on code units below 256: the letters \<open>A\<close> to \<open>Z\<close> (65 to 90) and the
  Latin-1 capitals (192 to 222 without the multiplication sign 215) move up by 32, which
  sets bit 5 of the code unit; every other code unit stays.
\<close>

definition toLowerCase_char :: "char \<Rightarrow> char" where
  "toLowerCase_char c =
     (let n = (of_char c :: nat)
      in if (65 \<le> n \<and> n \<le> 90) \<or> (192 \<le> n \<and> n \<le> 222 \<and> n \<noteq> 215)
         then (case c of Char b0 b1 b2 b3 b4 b5 b6 b7 \<Rightarrow> Char b0 b1 b2 b3 b4 True b6 b7)
         else c)"

definition toLowerCase :: "string \<Rightarrow> string" where
  "toLowerCase s = map toLowerCase_char s"

fun startsWith :: "string \<Rightarrow> string \<Rightarrow> bool" where
  "startsWith s [] = True"
| "startsWith [] (p # ps) = False"
| "startsWith (c # cs) (p # ps) = (c = p \<and> startsWith cs ps)"

text \<open>\<open>s.includes(p)\<close>: \<open>p\<close> occurs in \<open>s\<close> at some position.\<close>

fun js_includes :: "string \<Rightarrow> string \<Rightarrow> bool" where
  "js_includes [] p = (p = [])"
| "js_includes (c # cs) p = (startsWith (c # cs) p \<or> js_includes cs p)"

text \<open>The white space and line terminators below 256 that \<open>trim\<close> removes.\<close>

definition isWhiteSpace :: "char \<Rightarrow> bool" where
  "isWhiteSpace c = ((of_char c :: nat) \<in> {9, 10, 11, 12, 13, 32, 160})"

definition js_trim :: "string \<Rightarrow> string" where
  "js_trim s = rev (dropWhile isWhiteSpace (rev (dropWhile isWhiteSpace s)))"

text \<open>The double quote, which a string literal of this theory cannot hold.\<close>

definition dq :: string where
  "dq = [CHR 0x22]"

text \<open>
  A value of type \<open>string | null\<close> used as a condition is true when it is a non-empty
  string; \<open>v || ''\<close> is the string, or the empty string for \<open>null\<close>.
\<close>

definition truthy :: "string option \<Rightarrow> bool" where
  "truthy v = (case v of None \<Rightarrow> False | Some s \<Rightarrow> s \<noteq> [])"

definition or_empty :: "string option \<Rightarrow> string" where
  "or_empty v = (case v of None \<Rightarrow> [] | Some s \<Rightarrow> s)"

section \<open>Retry helper (tests/helpers/retry-helper.ts)\<close>

text \<open>
  An operation \<open>() => Promise<T>\<close> is given by what each of its invocations does:
  \<open>operation k\<close> is the outcome of the \<open>k\<close>-th call (counted from 1), \<open>Inl e\<close> when the
  promise rejects with \<open>e\<close> and \<open>Inr v\<close> when it resolves to \<open>v\<close>.
\<close>

record RetryOptions =
  maxRetries :: int
  baseDelay :: real
  maxDelay :: real
  backoffMultiplier :: real

text \<open>\<open>Partial<RetryOptions>\<close>: every field may be absent.\<close>

record PartialRetryOptions =
  opt_maxRetries :: "int option"
  opt_baseDelay :: "real option"
  opt_maxDelay :: "real option"
  opt_backoffMultiplier :: "real option"

definition DEFAULT_RETRY_OPTIONS :: RetryOptions where
  "DEFAULT_RETRY_OPTIONS =
     \<lparr>maxRetries = 3, baseDelay = 500, maxDelay = 2000, backoffMultiplier = 2\<rparr>"

text \<open>The object spread \<open>{ ...DEFAULT_RETRY_OPTIONS, ...options }\<close>.\<close>

definition spread_options :: "RetryOptions \<Rightarrow> PartialRetryOptions \<Rightarrow> RetryOptions" where
  "spread_options d options =
     \<lparr>maxRetries = (case opt_maxRetries options of None \<Rightarrow> maxRetries d | Some v \<Rightarrow> v),
      baseDelay = (case opt_baseDelay options of None \<Rightarrow> baseDelay d | Some v \<Rightarrow> v),
      maxDelay = (case opt_maxDelay options of None \<Rightarrow> maxDelay d | Some v \<Rightarrow> v),
      backoffMultiplier =
        (case opt_backoffMultiplier options of None \<Rightarrow> backoffMultiplier d | Some v \<Rightarrow> v)\<rparr>"

text \<open>
  What one run of a retry function did: how it ended (\<open>Inr v\<close>: it returned \<open>v\<close>;
  \<open>Inl (Some e)\<close>: it threw \<open>e\<close>; \<open>Inl None\<close>: the final \<open>throw lastError!\<close> with
  \<open>lastError\<close> still \<open>null\<close>), how many times it invoked the operation, and the delays
  it passed to \<open>setTimeout\<close>, in order.
\<close>

record ('e, 'a) retry_run =
  outcome :: "'e option + 'a"
  calls :: nat
  sleeps :: "real list"

text \<open>
  The \<open>for\<close> loop of \<open>retry\<close>. \<open>n\<close> counts the invocations made so far and \<open>ds\<close> collects
  the delays slept so far.
\<close>

function retry_loop ::
  "(nat \<Rightarrow> 'e + 'a) \<Rightarrow> RetryOptions \<Rightarrow> int \<Rightarrow> 'e option \<Rightarrow> nat \<Rightarrow> real list
     \<Rightarrow> ('e, 'a) retry_run" where
  "retry_loop operation config attempt lastError n ds =
     (if attempt \<le> maxRetries config then
        (case operation (Suc n) of
           Inr v \<Rightarrow> \<lparr>outcome = Inr v, calls = Suc n, sleeps = ds\<rparr>
         | Inl error \<Rightarrow>
             (if attempt = maxRetries config then
                \<lparr>outcome = Inl (Some error), calls = Suc n, sleeps = ds\<rparr>
              else
                (let delay = min (baseDelay config * (backoffMultiplier config powi (attempt - 1)))
                                 (maxDelay config)
                 in retry_loop operation config (attempt + 1) (Some error) (Suc n) (ds @ [delay]))))
      else \<lparr>outcome = Inl lastError, calls = n, sleeps = ds\<rparr>)"
  by pat_completeness auto
termination
  by (relation "measure (\<lambda>(operation, config, attempt, lastError, n, ds).
                  nat (maxRetries config + 1 - attempt))") auto

declare retry_loop.simps [simp del]

definition retry :: "(nat \<Rightarrow> 'e + 'a) \<Rightarrow> PartialRetryOptions \<Rightarrow> ('e, 'a) retry_run" where
  "retry operation options =
     (let config = spread_options DEFAULT_RETRY_OPTIONS options
      in retry_loop operation config 1 None 0 [])"

text \<open>
  \<open>retryValidation\<close> repeats the loop of \<open>retry\<close>; it differs from it in what it logs
  (the operation name and the attempt number).
\<close>

function retryValidation_loop ::
  "(nat \<Rightarrow> 'e + 'a) \<Rightarrow> string \<Rightarrow> RetryOptions \<Rightarrow> int \<Rightarrow> 'e option \<Rightarrow> nat \<Rightarrow> real list
     \<Rightarrow> ('e, 'a) retry_run" where
  "retryValidation_loop operation operationName config attempt lastError n ds =
     (if attempt \<le> maxRetries config then
        (case operation (Suc n) of
           Inr v \<Rightarrow> \<lparr>outcome = Inr v, calls = Suc n, sleeps = ds\<rparr>
         | Inl error \<Rightarrow>
             (if attempt = maxRetries config then
                \<lparr>outcome = Inl (Some error), calls = Suc n, sleeps = ds\<rparr>
              else
                (let delay = min (baseDelay config * (backoffMultiplier config powi (attempt - 1)))
                                 (maxDelay config)
                 in retryValidation_loop operation operationName config (attempt + 1) (Some error)
                      (Suc n) (ds @ [delay]))))
      else \<lparr>outcome = Inl lastError, calls = n, sleeps = ds\<rparr>)"
  by pat_completeness auto
termination
  by (relation "measure (\<lambda>(operation, operationName, config, attempt, lastError, n, ds).
                  nat (maxRetries config + 1 - attempt))") auto

declare retryValidation_loop.simps [simp del]

definition retryValidation ::
  "(nat \<Rightarrow> 'e + 'a) \<Rightarrow> string \<Rightarrow> PartialRetryOptions \<Rightarrow> ('e, 'a) retry_run" where
  "retryValidation operation operationName options =
     (let config = spread_options DEFAULT_RETRY_OPTIONS options
      in retryValidation_loop operation operationName config 1 None 0 [])"

section \<open>Readiness checker (tests/helpers/readiness-checker.ts)\<close>

text \<open>
  What \<open>page.request.get\<close> does on one call: it throws, or it answers with a status after
  some milliseconds. \<open>request k\<close> is what the \<open>k\<close>-th request of a run does.
\<close>

datatype request_outcome = Rejected exn | Responded int nat

record ReadinessCheckResult =
  isReady :: bool
  rc_error :: "string option"
  responseTime :: "nat option"

text \<open>A run of \<open>checkAppReadiness\<close>: the object returned, the requests made, the waits slept.\<close>

record readiness_run =
  rr_result :: ReadinessCheckResult
  rr_requests :: nat
  rr_waits :: "nat list"

definition rc_maxRetries :: int where
  "rc_maxRetries = 3"

definition rc_retryDelay :: nat where
  "rc_retryDelay = 1000"

text \<open>
  The \<open>try\<close>/\<open>catch\<close> of one attempt: \<open>Some r\<close> when it returns \<open>r\<close>, \<open>None\<close> when control
  falls through to the wait and the next attempt.
\<close>

definition readiness_attempt :: "request_outcome \<Rightarrow> int \<Rightarrow> ReadinessCheckResult option" where
  "readiness_attempt response attempt =
     (case response of
        Responded status elapsed \<Rightarrow>
          if status = 200 then
            Some \<lparr>isReady = True, rc_error = None, responseTime = Some elapsed\<rparr>
          else
            (let error = ''App responded with status '' @ string_of_int status
             in if attempt = rc_maxRetries then
                  Some \<lparr>isReady = False, rc_error = Some error, responseTime = Some elapsed\<rparr>
                else None)
      | Rejected error \<Rightarrow>
          (let errorMessage = ''Connection failed: '' @ error
           in if attempt = rc_maxRetries then
                Some \<lparr>isReady = False, rc_error = Some errorMessage, responseTime = None\<rparr>
              else None))"

function checkAppReadiness_loop ::
  "(nat \<Rightarrow> request_outcome) \<Rightarrow> int \<Rightarrow> nat \<Rightarrow> nat list \<Rightarrow> readiness_run" where
  "checkAppReadiness_loop request attempt n ws =
     (if attempt \<le> rc_maxRetries then
        (case readiness_attempt (request (Suc n)) attempt of
           Some r \<Rightarrow> \<lparr>rr_result = r, rr_requests = Suc n, rr_waits = ws\<rparr>
         | None \<Rightarrow>
             checkAppReadiness_loop request (attempt + 1) (Suc n)
               (if attempt < rc_maxRetries then ws @ [rc_retryDelay] else ws))
      else
        \<lparr>rr_result = \<lparr>isReady = False,
                      rc_error = Some ''App failed to respond after all retry attempts'',
                      responseTime = None\<rparr>,
         rr_requests = n, rr_waits = ws\<rparr>)"
  by pat_completeness auto
termination
  by (relation "measure (\<lambda>(request, attempt, n, ws). nat (rc_maxRetries + 1 - attempt))") auto

declare checkAppReadiness_loop.simps [simp del]

definition checkAppReadiness :: "(nat \<Rightarrow> request_outcome) \<Rightarrow> readiness_run" where
  "checkAppReadiness request = checkAppReadiness_loop request 1 0 []"

text \<open>The error text of a response that is not a success (lines 34 and 46 of the source).\<close>

definition failure_text :: "request_outcome \<Rightarrow> string" where
  "failure_text response =
     (case response of
        Responded status elapsed \<Rightarrow> ''App responded with status '' @ string_of_int status
      | Rejected error \<Rightarrow> ''Connection failed: '' @ error)"

section \<open>Content validators (tests/helpers/tooltip-checker.ts)\<close>

text \<open>
  The page as the validators query it. \<open>locator_all page s\<close> is the list of elements that
  \<open>page.locator(s)\<close> matches (\<open>count()\<close> is its length, \<open>nth(i)\<close> its \<open>i\<close>-th element), or the
  exception thrown on counting them; \<open>locator_first page s\<close> is \<open>page.locator(s).first()\<close>.
  Every query of an element either throws or answers. The page does not change during
  a validation.
\<close>

record TooltipElement =
  textContent :: "exn + string option"
  getAttribute :: "string \<Rightarrow> exn + string option"

record SectionElement =
  isVisible :: "exn + bool"
  parent_textContent :: "exn + string option"

record Page =
  locator_all :: "string \<Rightarrow> exn + TooltipElement list"
  locator_first :: "string \<Rightarrow> SectionElement"

subsection \<open>validateTooltips\<close>

record TooltipDetail =
  d_term :: string
  d_tooltip :: string
  d_isValid :: bool
  d_error :: "string option"

record TooltipValidationResult =
  t_isValid :: bool
  tooltipCount :: nat
  validTooltips :: nat
  errors :: "string list"
  details :: "TooltipDetail list"

text \<open>The three selectors tried in turn while the count is zero.\<close>

definition locate_tooltips :: "Page \<Rightarrow> exn + TooltipElement list" where
  "locate_tooltips page =
     (case locator_all page (''span[class*='' @ dq @ ''tooltip'' @ dq @ '']'') of
        Inl e \<Rightarrow> Inl e
      | Inr tooltips \<Rightarrow>
          if length tooltips = 0 then
            (case locator_all page ''[data-tooltip]'' of
               Inl e \<Rightarrow> Inl e
             | Inr tooltips \<Rightarrow>
                 if length tooltips = 0 then locator_all page ''[title]'' else Inr tooltips)
          else Inr tooltips)"

text \<open>
  \<open>getAttribute('data-tooltip') || getAttribute('title') || getAttribute('aria-label') || ''\<close>:
  a later attribute is read only when the earlier ones are \<open>null\<close> or empty.
\<close>

definition get_tooltipText :: "TooltipElement \<Rightarrow> exn + string" where
  "get_tooltipText tooltip =
     (case getAttribute tooltip ''data-tooltip'' of
        Inl e \<Rightarrow> Inl e
      | Inr a \<Rightarrow>
          if truthy a then Inr (or_empty a)
          else
            (case getAttribute tooltip ''title'' of
               Inl e \<Rightarrow> Inl e
             | Inr b \<Rightarrow>
                 if truthy b then Inr (or_empty b)
                 else
                   (case getAttribute tooltip ''aria-label'' of
                      Inl e \<Rightarrow> Inl e
                    | Inr c \<Rightarrow> Inr (or_empty c))))"

definition tooltip_placeholderPatterns :: "string list" where
  "tooltip_placeholderPatterns =
     [''No description available'', ''No tooltip available'', ''Click for more info'',
      ''Hover for details'', ''Loading...'', ''Please wait...'']"

text \<open>The \<open>detail\<close> object of one tooltip and the chain of checks that fills it.\<close>

definition check_tooltip :: "string option \<Rightarrow> string \<Rightarrow> TooltipDetail" where
  "check_tooltip term_text tooltipText =
     (let detail = \<lparr>d_term = or_empty (map_option js_trim term_text),
                     d_tooltip = js_trim tooltipText,
                     d_isValid = False,
                     d_error = None\<rparr>
      in if d_term detail = [] then
           detail\<lparr>d_error := Some ''Missing term text''\<rparr>
         else if length (d_term detail) < 2 then
           detail\<lparr>d_error := Some ''Term too short (minimum 2 characters)''\<rparr>
         else if d_tooltip detail = [] then
           detail\<lparr>d_error := Some ''Missing tooltip content''\<rparr>
         else if length (d_tooltip detail) < 15 then
           detail\<lparr>d_error := Some (''Tooltip too short ('' @ string_of_nat (length (d_tooltip detail))
                                     @ '' chars, minimum 15)'')\<rparr>
         else
           (let isPlaceholder =
                  list_ex (\<lambda>pattern. js_includes (toLowerCase (d_tooltip detail)) (toLowerCase pattern))
                    tooltip_placeholderPatterns
            in if isPlaceholder then
                 detail\<lparr>d_error := Some (''Tooltip contains placeholder text: '' @ dq
                                           @ d_tooltip detail @ dq)\<rparr>
               else detail\<lparr>d_isValid := True\<rparr>))"

text \<open>
  The loop over the located elements. It returns the exception thrown, if any, and the
  result object as the loop left it.
\<close>

fun validate_each ::
  "TooltipElement list \<Rightarrow> TooltipValidationResult \<Rightarrow> exn option \<times> TooltipValidationResult" where
  "validate_each [] result = (None, result)"
| "validate_each (tooltip # rest) result =
     (case textContent tooltip of
        Inl e \<Rightarrow> (Some e, result)
      | Inr term_text \<Rightarrow>
          (case get_tooltipText tooltip of
             Inl e \<Rightarrow> (Some e, result)
           | Inr tooltipText \<Rightarrow>
               (let detail = check_tooltip term_text tooltipText;
                    result1 = (if d_isValid detail
                               then result\<lparr>validTooltips := validTooltips result + 1\<rparr>
                               else result);
                    result2 = (if \<not> d_isValid detail \<and> truthy (d_error detail)
                               then result1\<lparr>errors := errors result1 @
                                      [d_term detail @ '': '' @ or_empty (d_error detail)]\<rparr>
                               else result1)
                in validate_each rest (result2\<lparr>details := details result2 @ [detail]\<rparr>))))"

text \<open>The body of the \<open>try\<close> block: the exception thrown, if any, and the result object.\<close>

definition validateTooltips_try ::
  "Page \<Rightarrow> TooltipValidationResult \<Rightarrow> exn option \<times> TooltipValidationResult" where
  "validateTooltips_try page result =
     (case locate_tooltips page of
        Inl e \<Rightarrow> (Some e, result)
      | Inr tooltips \<Rightarrow>
          (let count = length tooltips;
               result1 = result\<lparr>tooltipCount := count\<rparr>
           in if count = 0 then
                (None, result1\<lparr>errors := errors result1 @ [''No tooltips found in response'']\<rparr>)
              else
                (case validate_each tooltips result1 of
                   (Some e, r) \<Rightarrow> (Some e, r)
                 | (None, r) \<Rightarrow>
                     (None, r\<lparr>t_isValid := (validTooltips r > 0 \<and> length (errors r) = 0)\<rparr>))))"

definition tooltip_result_init :: TooltipValidationResult where
  "tooltip_result_init =
     \<lparr>t_isValid = False, tooltipCount = 0, validTooltips = 0, errors = [], details = []\<rparr>"

text \<open>The function: the initial result object, the \<open>try\<close> block and its \<open>catch\<close>.\<close>

definition validateTooltips :: "Page \<Rightarrow> TooltipValidationResult" where
  "validateTooltips page =
     (case validateTooltips_try page tooltip_result_init of
        (None, r) \<Rightarrow> r
      | (Some e, r) \<Rightarrow> r\<lparr>errors := errors r @ [''Error checking tooltips: '' @ e]\<rparr>)"

subsection \<open>validateSection\<close>

record SectionValidationResult =
  s_isValid :: bool
  sectionName :: string
  content :: "string option"
  s_error :: "string option"
  characterCount :: nat

text \<open>
  The loop over the selector candidates: \<open>section\<close> is the locator of the first candidate
  that is visible, of the last candidate when none is, and \<open>null\<close> when there is none.
\<close>

fun find_section ::
  "Page \<Rightarrow> string list \<Rightarrow> SectionElement option \<Rightarrow> exn + SectionElement option" where
  "find_section page [] section = Inr section"
| "find_section page (selector # rest) section =
     (let section1 = locator_first page selector
      in case isVisible section1 of
           Inl e \<Rightarrow> Inl e
         | Inr visible \<Rightarrow>
             if visible then Inr (Some section1) else find_section page rest (Some section1))"

definition section_placeholderPatterns :: "string list" where
  "section_placeholderPatterns =
     [''No answer available'', ''No content available'', ''No strategy available'',
      ''No story available'', ''No tools available'', ''No prompts available'',
      ''No concepts available'', ''Loading...'', ''Please wait...'', ''Coming soon...'',
      ''Under construction'']"

text \<open>The validation checks on the content stored in the result object.\<close>

definition check_section :: "SectionValidationResult \<Rightarrow> int \<Rightarrow> SectionValidationResult" where
  "check_section result minLength =
     (if or_empty (content result) = [] then
        result\<lparr>s_error := Some ''Section has no content''\<rparr>
      else if int (characterCount result) < minLength then
        result\<lparr>s_error := Some (''Section too short ('' @ string_of_nat (characterCount result)
                                 @ '' chars, expected '' @ string_of_int minLength @ ''+)'')\<rparr>
      else
        (let hasPlaceholder =
               list_ex (\<lambda>pattern. js_includes (toLowerCase (or_empty (content result)))
                                   (toLowerCase pattern))
                 section_placeholderPatterns
         in if hasPlaceholder then
              result\<lparr>s_error := Some ''Section contains placeholder text''\<rparr>
            else result\<lparr>s_isValid := True\<rparr>))"

text \<open>The body of the \<open>try\<close> block: the exception thrown, if any, and the result object.\<close>

definition validateSection_try ::
  "Page \<Rightarrow> string list \<Rightarrow> int \<Rightarrow> SectionValidationResult
     \<Rightarrow> exn option \<times> SectionValidationResult" where
  "validateSection_try page selectors minLength result =
     (case find_section page selectors None of
        Inl e \<Rightarrow> (Some e, result)
      | Inr None \<Rightarrow> (None, result\<lparr>s_error := Some ''Section not found or not visible''\<rparr>)
      | Inr (Some section) \<Rightarrow>
          (case isVisible section of
             Inl e \<Rightarrow> (Some e, result)
           | Inr visible \<Rightarrow>
               if \<not> visible then
                 (None, result\<lparr>s_error := Some ''Section not found or not visible''\<rparr>)
               else
                 (case parent_textContent section of
                    Inl e \<Rightarrow> (Some e, result)
                  | Inr text \<Rightarrow>
                      (let result1 = result\<lparr>content := Some (or_empty text)\<rparr>;
                           result2 = result1\<lparr>characterCount := length (or_empty (content result1))\<rparr>
                       in (None, check_section result2 minLength)))))"

definition section_result_init :: "string \<Rightarrow> SectionValidationResult" where
  "section_result_init name =
     \<lparr>s_isValid = False, sectionName = name, content = None, s_error = None, characterCount = 0\<rparr>"

definition validateSection ::
  "Page \<Rightarrow> string \<Rightarrow> string list \<Rightarrow> int \<Rightarrow> SectionValidationResult" where
  "validateSection page name selectors minLength =
     (case validateSection_try page selectors minLength (section_result_init name) of
        (None, r) \<Rightarrow> r
      | (Some e, r) \<Rightarrow> r\<lparr>s_error := Some (''Error validating section: '' @ e)\<rparr>)"

section \<open>Layout centering tests (tests/layout-center.spec.ts)\<close>

text \<open>
  The layout of a loaded page as the tests measure it: whether the first match of a
  selector is visible, the bounding box of the first match of a selector (\<open>null\<close> when
  there is none), and the viewport size.
\<close>

record BoundingBox =
  box_x :: real
  box_y :: real
  box_width :: real
  box_height :: real

record ViewportSize =
  vp_width :: int
  vp_height :: int

record LayoutPage =
  selector_visible :: "string \<Rightarrow> bool"
  boundingBox :: "string \<Rightarrow> BoundingBox option"
  viewportSize :: "ViewportSize option"

text \<open>
  How a test ends: it passes, it throws, or an \<open>expect(actual).toBeLessThanOrEqual(bound)\<close>
  fails.
\<close>

datatype test_outcome = Passed | Threw string | ExpectFailed real real

definition wrapperSelectors :: "string list" where
  "wrapperSelectors =
     [''.main-wrapper'', ''.main-container'', ''.app-wrapper'', ''.container'', ''main'',
      ''#root > div'']"

fun find_wrapper :: "LayoutPage \<Rightarrow> string list \<Rightarrow> string option" where
  "find_wrapper page [] = None"
| "find_wrapper page (selector # rest) =
     (if selector_visible page selector then Some selector else find_wrapper page rest)"

text \<open>The wrapper measured: the first visible candidate, the body when there is none.\<close>

definition wrapper_or_body :: "LayoutPage \<Rightarrow> string" where
  "wrapper_or_body page =
     (case find_wrapper page wrapperSelectors of None \<Rightarrow> ''body'' | Some selector \<Rightarrow> selector)"

text \<open>The three lines that every test repeats to compute the offset.\<close>

definition centering_offset :: "BoundingBox \<Rightarrow> ViewportSize \<Rightarrow> real" where
  "centering_offset box viewport =
     (let wrapperCenter = box_x box + box_width box / 2;
          viewportCenter = real_of_int (vp_width viewport) / 2
      in \<bar>wrapperCenter - viewportCenter\<bar>)"

text \<open>Test "main layout wrapper is horizontally centered".\<close>

definition centered_test :: "LayoutPage \<Rightarrow> test_outcome" where
  "centered_test page =
     (let wrapper = wrapper_or_body page
      in case viewportSize page of
           None \<Rightarrow> Threw ''Viewport size not available''
         | Some viewport \<Rightarrow>
             (case boundingBox page wrapper of
                None \<Rightarrow> Threw ''Wrapper bounding box not available''
              | Some box \<Rightarrow>
                  (let offset = centering_offset box viewport;
                       tolerance = 5
                   in if offset \<le> tolerance then Passed else ExpectFailed offset tolerance)))"

text \<open>
  Test "layout centering works with dynamic content". \<open>page\<close> is the layout before the
  query is submitted and \<open>page_after\<close> the layout once the response is rendered;
  \<open>interaction\<close> is the exception thrown while the query is filled in, submitted and
  awaited, if any.
\<close>

definition dynamic_content_test :: "LayoutPage \<Rightarrow> exn option \<Rightarrow> LayoutPage \<Rightarrow> test_outcome" where
  "dynamic_content_test page interaction page_after =
     (let wrapper = wrapper_or_body page
      in case boundingBox page wrapper of
           None \<Rightarrow> Threw ''Initial wrapper bounding box not available''
         | Some initialBox \<Rightarrow>
             (case viewportSize page of
                None \<Rightarrow> Threw ''Viewport size not available''
              | Some viewport \<Rightarrow>
                  (let initialOffset = centering_offset initialBox viewport
                   in case interaction of
                        Some e \<Rightarrow> Threw e
                      | None \<Rightarrow>
                          (case boundingBox page_after wrapper of
                             None \<Rightarrow> Threw ''Final wrapper bounding box not available''
                           | Some finalBox \<Rightarrow>
                               (let finalOffset = centering_offset finalBox viewport;
                                    tolerance = 5
                                in if \<not> finalOffset \<le> tolerance
                                   then ExpectFailed finalOffset tolerance
                                   else
                                     (let centeringChange = \<bar>finalOffset - initialOffset\<bar>;
                                          isMobile = (vp_width viewport \<le> 768);
                                          maxChange = (if isMobile then 5 else 2)
                                      in if centeringChange \<le> maxChange then Passed
                                         else ExpectFailed centeringChange maxChange))))))"

section \<open>Example inputs\<close>

definition default_options :: PartialRetryOptions where
  "default_options =
     \<lparr>opt_maxRetries = None, opt_baseDelay = None, opt_maxDelay = None,
      opt_backoffMultiplier = None\<rparr>"

text \<open>An element with a text and a \<open>data-tooltip\<close> attribute.\<close>

definition tooltip_span :: "string \<Rightarrow> string \<Rightarrow> TooltipElement" where
  "tooltip_span t tip =
     \<lparr>textContent = Inr (Some t),
      getAttribute = (\<lambda>a. if a = ''data-tooltip'' then Inr (Some tip) else Inr None)\<rparr>"


text \<open>
  A page on which the elements \<open>els\<close> carry \<open>data-tooltip\<close> and are not spans of a tooltip
  class, and on which one section, of text \<open>txt\<close>, is found by \<open>text=Strategy\<close>; the query
  of \<open>[data-testid=broken]\<close> throws.
\<close>

definition example_page :: "TooltipElement list \<Rightarrow> string \<Rightarrow> Page" where
  "example_page els txt =
     \<lparr>locator_all = (\<lambda>s. if s = ''[data-tooltip]'' then Inr els else Inr []),
      locator_first =
        (\<lambda>s. if s = ''text=Strategy'' then
                \<lparr>isVisible = Inr True, parent_textContent = Inr (Some txt)\<rparr>
              else if s = ''[data-testid=broken]'' then
                \<lparr>isVisible = Inl ''Error: Target closed'',
                 parent_textContent = Inl ''Error: Target closed''\<rparr>
              else
                \<lparr>isVisible = Inr False, parent_textContent = Inl ''Error: Timeout''\<rparr>)\<rparr>"

text \<open>A layout whose \<open>main\<close> element is the wrapper, at \<open>x\<close> with width \<open>w\<close>, in a viewport of width \<open>vw\<close>.\<close>

definition example_layout :: "real \<Rightarrow> real \<Rightarrow> int \<Rightarrow> LayoutPage" where
  "example_layout x w vw =
     \<lparr>selector_visible = (\<lambda>s. s = ''main''),
      boundingBox =
        (\<lambda>s. if s = ''main''
              then Some \<lparr>box_x = x, box_y = 0, box_width = w, box_height = 900\<rparr>
              else None),
      viewportSize = Some \<lparr>vp_width = vw, vp_height = 720\<rparr>\<rparr>"

chapter \<open>Properties\<close>

section \<open>The retry loops\<close>

lemma retryValidation_loop_eq:
  "retryValidation_loop operation operationName config attempt lastError n ds =
   retry_loop operation config attempt lastError n ds"
proof (induction operation config attempt lastError n ds rule: retry_loop.induct)
  case (1 operation config attempt lastError n ds)
  show ?case
    by (subst retryValidation_loop.simps, subst retry_loop.simps)
       (auto split: sum.splits simp: Let_def 1)
qed

lemma retryValidation_eq: "retryValidation operation operationName options = retry operation options"
  by (simp add: retryValidation_def retry_def retryValidation_loop_eq)

lemma retry_loop_calls_ge:
  "n \<le> calls (retry_loop operation config attempt lastError n ds)"
proof (induction operation config attempt lastError n ds rule: retry_loop.induct)
  case (1 operation config attempt lastError n ds)
  show ?case
    by (subst retry_loop.simps) (auto split: sum.splits simp: Let_def dest: 1 Suc_leD)
qed

lemma retry_loop_calls_gt:
  "attempt \<le> maxRetries config \<Longrightarrow> n < calls (retry_loop operation config attempt lastError n ds)"
  using retry_loop_calls_ge [of "Suc n" operation config "attempt + 1"]
  by (subst retry_loop.simps) (auto split: sum.splits simp: Let_def Suc_le_eq)

text \<open>The delays slept are given by the backoff formula, one per invocation but the last.\<close>

lemma retry_loop_sleeps:
  "attempt = int n + 1 \<Longrightarrow>
   sleeps (retry_loop operation config attempt lastError n ds) =
   ds @ map (\<lambda>k. min (baseDelay config * backoffMultiplier config ^ (k - 1)) (maxDelay config))
          [Suc n ..< calls (retry_loop operation config attempt lastError n ds)]"
proof (induction operation config attempt lastError n ds rule: retry_loop.induct)
  case (1 operation config attempt lastError n ds)
  show ?case
  proof (cases "attempt \<le> maxRetries config")
    case False
    then show ?thesis by (subst (1 2) retry_loop.simps) simp
  next
    case le: True
    show ?thesis
    proof (cases "operation (Suc n)")
      case (Inr v)
      with le show ?thesis by (subst (1 2) retry_loop.simps) simp
    next
      case (Inl error)
      show ?thesis
      proof (cases "attempt = maxRetries config")
        case True
        with le Inl show ?thesis by (subst (1 2) retry_loop.simps) simp
      next
        case False
        let ?d = "min (baseDelay config * (backoffMultiplier config powi (attempt - 1)))
                      (maxDelay config)"
        let ?r = "retry_loop operation config (attempt + 1) (Some error) (Suc n) (ds @ [?d])"
        have unfold: "retry_loop operation config attempt lastError n ds = ?r"
          using le Inl False by (subst retry_loop.simps) (simp add: Let_def)
        have "attempt + 1 \<le> maxRetries config" using le False by simp
        then have gt: "Suc n < calls ?r" by (rule retry_loop_calls_gt)
        have d: "?d = min (baseDelay config * backoffMultiplier config ^ (Suc n - 1)) (maxDelay config)"
          using "1.prems" by simp
        have ih: "sleeps ?r = (ds @ [?d]) @
            map (\<lambda>k. min (baseDelay config * backoffMultiplier config ^ (k - 1)) (maxDelay config))
              [Suc (Suc n) ..< calls ?r]"
          using "1.IH" [OF le Inl False refl] "1.prems" by simp
        have "[Suc n ..< calls ?r] = Suc n # [Suc (Suc n) ..< calls ?r]"
          using gt by (simp add: upt_conv_Cons)
        with ih d show ?thesis unfolding unfold by simp
      qed
    qed
  qed
qed

text \<open>While the attempts fail and the budget is not used up, the loop goes on.\<close>

lemma retry_loop_calls_after_failures:
  "attempt = int n + 1 \<Longrightarrow> int k < maxRetries config \<Longrightarrow> n \<le> k \<Longrightarrow>
   \<forall>j. n < j \<and> j \<le> k \<longrightarrow> (\<exists>e. operation j = Inl e) \<Longrightarrow>
   k < calls (retry_loop operation config attempt lastError n ds)"
proof (induction operation config attempt lastError n ds rule: retry_loop.induct)
  case (1 operation config attempt lastError n ds)
  show ?case
  proof (cases "n < k")
    case False
    then have "k \<le> n" by simp
    moreover have "attempt \<le> maxRetries config" using "1.prems" False by simp
    then have "n < calls (retry_loop operation config attempt lastError n ds)"
      by (rule retry_loop_calls_gt)
    ultimately show ?thesis by simp
  next
    case True
    then obtain error where Inl: "operation (Suc n) = Inl error"
      using "1.prems"(4) by (metis Suc_leI lessI)
    have le: "attempt \<le> maxRetries config" and ne: "attempt \<noteq> maxRetries config"
      using "1.prems" True by simp_all
    have "k < calls (retry_loop operation config (attempt + 1) (Some error) (Suc n)
              (ds @ [min (baseDelay config * (backoffMultiplier config powi (attempt - 1)))
                         (maxDelay config)]))"
      using "1.IH" [OF le Inl ne refl] "1.prems" True by simp
    then show ?thesis
      using le Inl ne by (subst retry_loop.simps) (simp add: Let_def)
  qed
qed

text \<open>When every attempt fails, the loop stops at attempt \<open>maxRetries\<close> with that attempt's error.\<close>

lemma retry_loop_all_fail:
  "attempt = int n + 1 \<Longrightarrow> attempt \<le> maxRetries config \<Longrightarrow>
   \<forall>j. n < j \<and> int j \<le> maxRetries config \<longrightarrow> operation j = Inl (err j) \<Longrightarrow>
   calls (retry_loop operation config attempt lastError n ds) = nat (maxRetries config) \<and>
   outcome (retry_loop operation config attempt lastError n ds)
     = Inl (Some (err (nat (maxRetries config))))"
proof (induction operation config attempt lastError n ds rule: retry_loop.induct)
  case (1 operation config attempt lastError n ds)
  have Inl: "operation (Suc n) = Inl (err (Suc n))"
    using "1.prems" by simp
  show ?case
  proof (cases "attempt = maxRetries config")
    case True
    then have "nat (maxRetries config) = Suc n" using "1.prems"(1) by simp
    then show ?thesis
      using "1.prems"(2) Inl True by (subst (1 2) retry_loop.simps) simp
  next
    case False
    have "attempt + 1 \<le> maxRetries config" using "1.prems"(2) False by simp
    then show ?thesis
      using "1.IH" [OF "1.prems"(2) Inl False refl] "1.prems" False Inl
      by (subst (1 2) retry_loop.simps) (simp add: Let_def)
  qed
qed


lemma retry_loop_sleeps_bounded:
  "attempt = int n + 1 \<Longrightarrow> \<forall>d \<in> set ds. d \<le> maxDelay config \<Longrightarrow>
   \<forall>d \<in> set (sleeps (retry_loop operation config attempt lastError n ds)). d \<le> maxDelay config"
  by (subst retry_loop_sleeps) auto

subsection \<open>Exhausting the attempts\<close>

text \<open>
  C1. With \<open>maxRetries = N\<close>, \<open>N \<ge> 1\<close>, and an operation whose attempts \<open>1, ..., N\<close> all
  fail (attempt \<open>k\<close> with error \<open>err k\<close>), \<open>retry\<close> and \<open>retryValidation\<close> invoke the
  operation exactly \<open>N\<close> times and throw the error of attempt \<open>N\<close>.
\<close>

theorem retry_permanent_failure:
  assumes "maxRetries (spread_options DEFAULT_RETRY_OPTIONS options) = int N"
    and "1 \<le> N"
    and "\<forall>k. 1 \<le> k \<and> k \<le> N \<longrightarrow> operation k = Inl (err k)"
  shows "calls (retry operation options) = N \<and>
         outcome (retry operation options) = Inl (Some (err N)) \<and>
         calls (retryValidation operation operationName options) = N \<and>
         outcome (retryValidation operation operationName options) = Inl (Some (err N))"
proof -
  let ?config = "spread_options DEFAULT_RETRY_OPTIONS options"
  have "\<forall>j. 0 < j \<and> int j \<le> maxRetries ?config \<longrightarrow> operation j = Inl (err j)"
    using assms(1,3) by (simp add: Suc_le_eq)
  moreover have "(1::int) = int 0 + 1" and "1 \<le> maxRetries ?config"
    using assms(1,2) by simp_all
  ultimately have
    "calls (retry_loop operation ?config 1 None 0 []) = nat (maxRetries ?config) \<and>
     outcome (retry_loop operation ?config 1 None 0 []) = Inl (Some (err (nat (maxRetries ?config))))"
    by (intro retry_loop_all_fail)
  then show ?thesis
    using assms(1) by (simp add: retryValidation_eq retry_def)
qed

theorem retry_permanent_failure_witness:
  "calls (retry (\<lambda>k. Inl (10 * k) :: nat + unit)
            \<lparr>opt_maxRetries = None, opt_baseDelay = None, opt_maxDelay = None,
             opt_backoffMultiplier = None\<rparr>) = 3 \<and>
   outcome (retry (\<lambda>k. Inl (10 * k) :: nat + unit)
            \<lparr>opt_maxRetries = None, opt_baseDelay = None, opt_maxDelay = None,
             opt_backoffMultiplier = None\<rparr>) = Inl (Some 30) \<and>
   calls (retryValidation (\<lambda>k. Inl (10 * k) :: nat + unit) ''App readiness check''
            \<lparr>opt_maxRetries = None, opt_baseDelay = None, opt_maxDelay = None,
             opt_backoffMultiplier = None\<rparr>) = 3 \<and>
   outcome (retryValidation (\<lambda>k. Inl (10 * k) :: nat + unit) ''App readiness check''
            \<lparr>opt_maxRetries = None, opt_baseDelay = None, opt_maxDelay = None,
             opt_backoffMultiplier = None\<rparr>) = Inl (Some 30)"
  using retry_permanent_failure
    [of "\<lparr>opt_maxRetries = None, opt_baseDelay = None, opt_maxDelay = None,
          opt_backoffMultiplier = None\<rparr>" 3 "\<lambda>k. Inl (10 * k) :: nat + unit" "\<lambda>k. 10 * k"
        "''App readiness check''"]
  by (simp add: spread_options_def DEFAULT_RETRY_OPTIONS_def)

subsection \<open>The backoff delay\<close>

text \<open>
  C2. With base delay \<open>b\<close>, multiplier \<open>m\<close> and maximal delay \<open>M\<close>: when attempts
  \<open>1, ..., k\<close> fail and \<open>k < maxRetries\<close>, the delay slept after attempt \<open>k\<close> (the \<open>k\<close>-th
  delay of the run) is \<open>min (b * m ^ (k - 1)) M\<close>; and no delay of any run exceeds \<open>M\<close>.
  The same holds for \<open>retryValidation\<close>.
\<close>

theorem retry_backoff_delay:
  assumes "config = spread_options DEFAULT_RETRY_OPTIONS options"
    and "1 \<le> k"
    and "int k < maxRetries config"
    and "\<forall>j. 1 \<le> j \<and> j \<le> k \<longrightarrow> (\<exists>e. operation j = Inl e)"
  shows "k \<le> length (sleeps (retry operation options)) \<and>
         sleeps (retry operation options) ! (k - 1)
           = min (baseDelay config * backoffMultiplier config ^ (k - 1)) (maxDelay config) \<and>
         (\<forall>d \<in> set (sleeps (retry operation options)). d \<le> maxDelay config) \<and>
         sleeps (retryValidation operation operationName options) = sleeps (retry operation options)"
proof -
  let ?r = "retry_loop operation config 1 None 0 []"
  let ?f = "\<lambda>k. min (baseDelay config * backoffMultiplier config ^ (k - 1)) (maxDelay config)"
  have r: "retry operation options = ?r"
    using assms(1) by (simp add: retry_def)
  have one: "(1::int) = int 0 + 1" by simp
  have sl: "sleeps ?r = map ?f [Suc 0 ..< calls ?r]"
    using retry_loop_sleeps [OF one, of operation config None "[]"] by simp
  have "\<forall>j. 0 < j \<and> j \<le> k \<longrightarrow> (\<exists>e. operation j = Inl e)"
    using assms(4) by (simp add: Suc_le_eq)
  with one assms(3) have k: "k < calls ?r"
    by (intro retry_loop_calls_after_failures) simp_all
  have len: "k \<le> length (sleeps ?r)"
    using k by (simp add: sl)
  have "k - 1 < calls ?r - Suc 0" and "Suc 0 + (k - 1) = k"
    using k assms(2) by simp_all
  then have nth: "sleeps ?r ! (k - 1) = ?f k"
    by (simp only: sl nth_map length_upt nth_upt)
  have bound: "\<forall>d \<in> set (sleeps ?r). d \<le> maxDelay config"
    by (simp add: sl)
  show ?thesis
    using len nth bound by (simp add: r retryValidation_eq)
qed

theorem retry_backoff_delay_witness:
  "2 \<le> length (sleeps (retry (\<lambda>k. Inl k :: nat + unit)
            \<lparr>opt_maxRetries = Some 5, opt_baseDelay = None, opt_maxDelay = Some 800,
             opt_backoffMultiplier = None\<rparr>)) \<and>
   sleeps (retry (\<lambda>k. Inl k :: nat + unit)
            \<lparr>opt_maxRetries = Some 5, opt_baseDelay = None, opt_maxDelay = Some 800,
             opt_backoffMultiplier = None\<rparr>) ! 1 = 800 \<and>
   sleeps (retry (\<lambda>k. Inl k :: nat + unit)
            \<lparr>opt_maxRetries = Some 5, opt_baseDelay = None, opt_maxDelay = Some 800,
             opt_backoffMultiplier = None\<rparr>) = [500, 800, 800, 800]"
proof -
  have "sleeps (retry (\<lambda>k. Inl k :: nat + unit)
            \<lparr>opt_maxRetries = Some 5, opt_baseDelay = None, opt_maxDelay = Some 800,
             opt_backoffMultiplier = None\<rparr>) = [500, 800, 800, 800]"
    by (simp add: retry_def spread_options_def DEFAULT_RETRY_OPTIONS_def retry_loop.simps)
  then show ?thesis
    using retry_backoff_delay
      [of "spread_options DEFAULT_RETRY_OPTIONS
             \<lparr>opt_maxRetries = Some 5, opt_baseDelay = None, opt_maxDelay = Some 800,
              opt_backoffMultiplier = None\<rparr>"
          "\<lparr>opt_maxRetries = Some 5, opt_baseDelay = None, opt_maxDelay = Some 800,
            opt_backoffMultiplier = None\<rparr>" 2 "\<lambda>k. Inl k :: nat + unit" "''op''"]
    by (simp add: spread_options_def DEFAULT_RETRY_OPTIONS_def)
qed

subsection \<open>A single attempt\<close>

text \<open>
  C9. With \<open>maxRetries = 1\<close>, \<open>retry\<close> invokes the operation exactly once, sleeps no delay,
  and ends as that one attempt ended: it throws the attempt's error, or returns its value.
\<close>

theorem retry_single_attempt:
  assumes "maxRetries (spread_options DEFAULT_RETRY_OPTIONS options) = 1"
  shows "calls (retry operation options) = 1 \<and>
         sleeps (retry operation options) = [] \<and>
         outcome (retry operation options)
           = (case operation 1 of Inl e \<Rightarrow> Inl (Some e) | Inr v \<Rightarrow> Inr v)"
  using assms
  by (simp add: retry_def, subst (1 2 3) retry_loop.simps) (simp split: sum.splits)

theorem retry_single_attempt_witness:
  "calls (retry (\<lambda>k. Inl ''timeout'' :: string + unit)
            \<lparr>opt_maxRetries = Some 1, opt_baseDelay = None, opt_maxDelay = None,
             opt_backoffMultiplier = None\<rparr>) = 1 \<and>
   sleeps (retry (\<lambda>k. Inl ''timeout'' :: string + unit)
            \<lparr>opt_maxRetries = Some 1, opt_baseDelay = None, opt_maxDelay = None,
             opt_backoffMultiplier = None\<rparr>) = [] \<and>
   outcome (retry (\<lambda>k. Inl ''timeout'' :: string + unit)
            \<lparr>opt_maxRetries = Some 1, opt_baseDelay = None, opt_maxDelay = None,
             opt_backoffMultiplier = None\<rparr>) = Inl (Some ''timeout'')"
  using retry_single_attempt
    [of "\<lparr>opt_maxRetries = Some 1, opt_baseDelay = None, opt_maxDelay = None,
          opt_backoffMultiplier = None\<rparr>" "\<lambda>k. Inl ''timeout'' :: string + unit"]
  by (simp add: spread_options_def DEFAULT_RETRY_OPTIONS_def)

section \<open>The readiness checker\<close>

lemma readiness_attempt_200:
  "readiness_attempt (Responded 200 t) attempt
     = Some \<lparr>isReady = True, rc_error = None, responseTime = Some t\<rparr>"
  by (simp add: readiness_attempt_def)

lemma readiness_attempt_retry:
  "\<forall>t. response \<noteq> Responded 200 t \<Longrightarrow> attempt \<noteq> 3 \<Longrightarrow> readiness_attempt response attempt = None"
  by (cases response) (simp_all add: readiness_attempt_def rc_maxRetries_def)

lemma readiness_attempt_last:
  "\<forall>t. response \<noteq> Responded 200 t \<Longrightarrow>
   \<exists>rt. readiness_attempt response 3
     = Some \<lparr>isReady = False, rc_error = Some (failure_text response), responseTime = rt\<rparr>"
  by (cases response) (simp_all add: readiness_attempt_def rc_maxRetries_def failure_text_def)

lemma loop_step_return:
  "attempt \<le> 3 \<Longrightarrow> readiness_attempt (request (Suc n)) attempt = Some r \<Longrightarrow>
   checkAppReadiness_loop request attempt n ws = \<lparr>rr_result = r, rr_requests = Suc n, rr_waits = ws\<rparr>"
  by (subst checkAppReadiness_loop.simps) (simp add: rc_maxRetries_def)

lemma loop_step_retry:
  "attempt < 3 \<Longrightarrow> readiness_attempt (request (Suc n)) attempt = None \<Longrightarrow>
   checkAppReadiness_loop request attempt n ws
     = checkAppReadiness_loop request (attempt + 1) (Suc n) (ws @ [1000])"
  by (subst checkAppReadiness_loop.simps) (simp add: rc_maxRetries_def rc_retryDelay_def)

lemma bounded_ex3: "(\<exists>k::nat. 1 \<le> k \<and> k \<le> 3 \<and> P k) = (P 1 \<or> P 2 \<or> P 3)"
proof -
  have "(1 \<le> k \<and> k \<le> 3) = (k = 1 \<or> k = 2 \<or> k = 3)" for k :: nat by auto
  then have "(\<exists>k::nat. 1 \<le> k \<and> k \<le> 3 \<and> P k) = (\<exists>k::nat. (k = 1 \<or> k = 2 \<or> k = 3) \<and> P k)"
    by (simp only: conj_assoc [symmetric])
  then show ?thesis by auto
qed

text \<open>
  C6, as the code has it. Only the status 200 is a success: \<open>checkAppReadiness\<close> reports
  \<open>isReady = true\<close> exactly when one of the first three requests answers with status 200.
  It makes at most three requests. When none of them answers 200 (another status, or the
  request throws), it makes exactly three requests, waits 1000 ms after the first and after
  the second, and returns an object with \<open>isReady = false\<close> whose \<open>error\<close> is the text
  of the third failure; it returns an object on every input and throws on none.
\<close>

theorem checkAppReadiness_only_200:
  "isReady (rr_result (checkAppReadiness request))
     = (\<exists>k t. 1 \<le> k \<and> k \<le> 3 \<and> request k = Responded 200 t) \<and>
   rr_requests (checkAppReadiness request) \<le> 3 \<and>
   (\<not> isReady (rr_result (checkAppReadiness request)) \<longrightarrow>
      rr_requests (checkAppReadiness request) = 3 \<and>
      rr_waits (checkAppReadiness request) = [1000, 1000] \<and>
      rc_error (rr_result (checkAppReadiness request)) = Some (failure_text (request 3)))"
proof -
  let ?ok = "\<lambda>k. \<exists>t. request k = Responded 200 t"
  have ex: "(\<exists>k t. 1 \<le> k \<and> k \<le> 3 \<and> request k = Responded 200 t) = (?ok 1 \<or> ?ok 2 \<or> ?ok 3)"
    using bounded_ex3 [of ?ok] by (simp only: ex_simps)
  consider (a) "?ok 1" | (b) "\<not> ?ok 1" "?ok 2" | (c) "\<not> ?ok 1" "\<not> ?ok 2" "?ok 3"
    | (d) "\<not> ?ok 1" "\<not> ?ok 2" "\<not> ?ok 3" by blast
  then show ?thesis
  proof cases
    case a
    have E: "\<exists>k t. 1 \<le> k \<and> k \<le> 3 \<and> request k = Responded 200 t"
      unfolding ex using a by blast
    from a obtain t where "request (Suc 0) = Responded 200 t" by auto
    then have "checkAppReadiness request
        = \<lparr>rr_result = \<lparr>isReady = True, rc_error = None, responseTime = Some t\<rparr>,
           rr_requests = Suc 0, rr_waits = []\<rparr>"
      by (simp add: checkAppReadiness_def loop_step_return readiness_attempt_200)
    with E show ?thesis by simp
  next
    case b
    have E: "\<exists>k t. 1 \<le> k \<and> k \<le> 3 \<and> request k = Responded 200 t"
      unfolding ex using b by blast
    from b(2) obtain t where t: "request (Suc (Suc 0)) = Responded 200 t"
      by (auto simp: numeral_2_eq_2)
    have "readiness_attempt (request (Suc 0)) 1 = None"
      using b(1) by (intro readiness_attempt_retry) simp_all
    then have "checkAppReadiness request = checkAppReadiness_loop request 2 (Suc 0) [1000]"
      by (simp add: checkAppReadiness_def loop_step_retry)
    also have "\<dots> = \<lparr>rr_result = \<lparr>isReady = True, rc_error = None, responseTime = Some t\<rparr>,
           rr_requests = Suc (Suc 0), rr_waits = [1000]\<rparr>"
      using t by (simp add: loop_step_return readiness_attempt_200)
    finally show ?thesis using E by simp
  next
    case c
    have E: "\<exists>k t. 1 \<le> k \<and> k \<le> 3 \<and> request k = Responded 200 t"
      unfolding ex using c by blast
    from c(3) obtain t where t: "request (Suc (Suc (Suc 0))) = Responded 200 t"
      by (auto simp: numeral_3_eq_3)
    have "readiness_attempt (request (Suc 0)) 1 = None"
      using c(1) by (intro readiness_attempt_retry) simp_all
    then have "checkAppReadiness request = checkAppReadiness_loop request 2 (Suc 0) [1000]"
      by (simp add: checkAppReadiness_def loop_step_retry)
    also have "readiness_attempt (request (Suc (Suc 0))) 2 = None"
      using c(2) by (intro readiness_attempt_retry) (simp_all add: numeral_2_eq_2)
    then have "checkAppReadiness_loop request 2 (Suc 0) [1000]
        = checkAppReadiness_loop request 3 (Suc (Suc 0)) [1000, 1000]"
      by (simp add: loop_step_retry)
    also have "\<dots> = \<lparr>rr_result = \<lparr>isReady = True, rc_error = None, responseTime = Some t\<rparr>,
           rr_requests = Suc (Suc (Suc 0)), rr_waits = [1000, 1000]\<rparr>"
      using t by (simp add: loop_step_return readiness_attempt_200)
    finally show ?thesis using E by simp
  next
    case d
    have E: "\<not> (\<exists>k t. 1 \<le> k \<and> k \<le> 3 \<and> request k = Responded 200 t)"
      unfolding ex using d by blast
    have "readiness_attempt (request (Suc 0)) 1 = None"
      using d(1) by (intro readiness_attempt_retry) simp_all
    then have "checkAppReadiness request = checkAppReadiness_loop request 2 (Suc 0) [1000]"
      by (simp add: checkAppReadiness_def loop_step_retry)
    also have "readiness_attempt (request (Suc (Suc 0))) 2 = None"
      using d(2) by (intro readiness_attempt_retry) (simp_all add: numeral_2_eq_2)
    then have "checkAppReadiness_loop request 2 (Suc 0) [1000]
        = checkAppReadiness_loop request 3 (Suc (Suc 0)) [1000, 1000]"
      by (simp add: loop_step_retry)
    also obtain rt where "readiness_attempt (request (Suc (Suc (Suc 0)))) 3
        = Some \<lparr>isReady = False, rc_error = Some (failure_text (request 3)), responseTime = rt\<rparr>"
      using readiness_attempt_last [of "request 3"] d(3) by (auto simp: numeral_3_eq_3)
    then have "checkAppReadiness_loop request 3 (Suc (Suc 0)) [1000, 1000]
        = \<lparr>rr_result = \<lparr>isReady = False, rc_error = Some (failure_text (request 3)),
                        responseTime = rt\<rparr>,
           rr_requests = Suc (Suc (Suc 0)), rr_waits = [1000, 1000]\<rparr>"
      by (simp add: loop_step_return)
    finally show ?thesis using E by simp
  qed
qed

text \<open>
  C6, as stated, fails: the status 204 is a 2xx status, and an application that answers
  204 to every request is reported as not ready.
\<close>

theorem checkAppReadiness_204_counterexample:
  "isReady (rr_result (checkAppReadiness (\<lambda>k. Responded 204 12))) = False \<and>
   rc_error (rr_result (checkAppReadiness (\<lambda>k. Responded 204 12)))
     = Some ''App responded with status 204''"
  by (simp add: checkAppReadiness_def checkAppReadiness_loop.simps readiness_attempt_def
        rc_maxRetries_def rc_retryDelay_def string_of_int_def string_of_nat.simps)

theorem checkAppReadiness_only_200_witness:
  "isReady (rr_result (checkAppReadiness
      (\<lambda>k. if k = 2 then Responded 200 7 else Rejected ''ECONNREFUSED''))) \<and>
   rr_requests (checkAppReadiness (\<lambda>k. Rejected ''ECONNREFUSED'')) = 3 \<and>
   rc_error (rr_result (checkAppReadiness (\<lambda>k. Rejected ''ECONNREFUSED'')))
     = Some ''Connection failed: ECONNREFUSED''"
  using checkAppReadiness_only_200 [of "\<lambda>k. if k = 2 then Responded 200 7 else Rejected ''ECONNREFUSED''"]
    checkAppReadiness_only_200 [of "\<lambda>k. Rejected ''ECONNREFUSED''"]
  by (simp add: bounded_ex3 failure_text_def)

section \<open>The content validators\<close>

lemma startsWith_iff: "startsWith s p = (\<exists>post. s = p @ post)"
  by (induction s p rule: startsWith.induct) auto

lemma js_includes_iff: "js_includes s p = (\<exists>pre post. s = pre @ p @ post)"
proof (induction s)
  case Nil
  then show ?case by simp
next
  case (Cons c cs)
  show ?case
  proof
    assume "js_includes (c # cs) p"
    then consider "startsWith (c # cs) p" | "js_includes cs p" by auto
    then show "\<exists>pre post. c # cs = pre @ p @ post"
    proof cases
      case 1
      then obtain post where "c # cs = [] @ p @ post" by (auto simp: startsWith_iff)
      then show ?thesis by blast
    next
      case 2
      then obtain pre post where "cs = pre @ p @ post" using Cons.IH by auto
      then have "c # cs = (c # pre) @ p @ post" by simp
      then show ?thesis by blast
    qed
  next
    assume "\<exists>pre post. c # cs = pre @ p @ post"
    then obtain pre post where eq: "c # cs = pre @ p @ post" by blast
    show "js_includes (c # cs) p"
    proof (cases pre)
      case Nil
      with eq have "startsWith (c # cs) p" by (simp add: startsWith_iff)
      then show ?thesis by simp
    next
      case (Cons a pre')
      with eq have "cs = pre' @ p @ post" by simp
      then have "js_includes cs p" using Cons.IH by blast
      then show ?thesis by simp
    qed
  qed
qed


subsection \<open>Tooltips\<close>

lemma check_tooltip_valid_or_error:
  "d_isValid (check_tooltip term_text tooltipText) \<or>
   truthy (d_error (check_tooltip term_text tooltipText))"
  by (simp add: check_tooltip_def Let_def truthy_def)

lemma validate_each_invariant:
  "validate_each els r = (x, r') \<Longrightarrow>
   t_isValid r' = t_isValid r \<and> tooltipCount r' = tooltipCount r \<and>
   (x = None \<longrightarrow>
      validTooltips r' + length (errors r') = validTooltips r + length (errors r) + length els)"
proof (induction els arbitrary: r)
  case Nil
  then show ?case by simp
next
  case (Cons tooltip rest)
  show ?case
  proof (cases "textContent tooltip")
    case (Inl e)
    with Cons.prems show ?thesis by auto
  next
    case term_text: (Inr term_text)
    show ?thesis
    proof (cases "get_tooltipText tooltip")
      case (Inl e)
      with Cons.prems term_text show ?thesis by auto
    next
      case (Inr tooltipText)
      let ?d = "check_tooltip term_text tooltipText"
      show ?thesis
      proof (cases "d_isValid ?d")
        case True
        with Cons.prems term_text Inr
        have "validate_each rest
                (r\<lparr>validTooltips := validTooltips r + 1, details := details r @ [?d]\<rparr>) = (x, r')"
          by (simp add: Let_def)
        from Cons.IH [OF this] show ?thesis by simp
      next
        case False
        then have "truthy (d_error ?d)"
          using check_tooltip_valid_or_error [of term_text tooltipText] by simp
        with False Cons.prems term_text Inr
        have "validate_each rest
                (r\<lparr>errors := errors r @ [d_term ?d @ '': '' @ or_empty (d_error ?d)],
                   details := details r @ [?d]\<rparr>) = (x, r')"
          by (simp add: Let_def)
        from Cons.IH [OF this] show ?thesis by simp
      qed
    qed
  qed
qed

lemma validateTooltips_try_thrown:
  "validateTooltips_try page r = (Some e, r') \<Longrightarrow> t_isValid r' = t_isValid r"
  by (auto simp: validateTooltips_try_def Let_def
           split: sum.splits if_splits prod.splits option.splits
           dest: validate_each_invariant)

lemma validateTooltips_try_returned:
  assumes "validateTooltips_try page tooltip_result_init = (None, r')"
  shows "t_isValid r' \<longrightarrow>
           validTooltips r' = tooltipCount r' \<and> errors r' = [] \<and> 0 < tooltipCount r'"
proof -
  from assms obtain tooltips where loc: "locate_tooltips page = Inr tooltips"
    by (auto simp: validateTooltips_try_def split: sum.splits)
  show ?thesis
  proof (cases "tooltips = []")
    case True
    with assms loc show ?thesis
      by (auto simp: validateTooltips_try_def tooltip_result_init_def)
  next
    case False
    with assms loc obtain r1 where
      each: "validate_each tooltips (tooltip_result_init\<lparr>tooltipCount := length tooltips\<rparr>)
               = (None, r1)"
      and r': "r' = r1\<lparr>t_isValid := (validTooltips r1 > 0 \<and> length (errors r1) = 0)\<rparr>"
      by (auto simp: validateTooltips_try_def Let_def split: prod.splits option.splits)
    from validate_each_invariant [OF each]
    have "tooltipCount r1 = length tooltips"
      and "validTooltips r1 + length (errors r1) = length tooltips"
      by (simp_all add: tooltip_result_init_def)
    with r' False show ?thesis by auto
  qed
qed

lemma validateTooltips_none_located:
  "locate_tooltips page = Inr [] \<Longrightarrow>
   validateTooltips page =
     \<lparr>t_isValid = False, tooltipCount = 0, validTooltips = 0,
      errors = [''No tooltips found in response''], details = []\<rparr>"
  by (simp add: validateTooltips_def validateTooltips_try_def tooltip_result_init_def)

lemma validateTooltips_valid_imp:
  "t_isValid (validateTooltips page) \<Longrightarrow>
   validTooltips (validateTooltips page) = tooltipCount (validateTooltips page) \<and>
   errors (validateTooltips page) = [] \<and> 0 < tooltipCount (validateTooltips page)"
proof (cases "validateTooltips_try page tooltip_result_init")
  case (Pair x r')
  assume valid: "t_isValid (validateTooltips page)"
  show ?thesis
  proof (cases x)
    case None
    with Pair have "validateTooltips page = r'" by (simp add: validateTooltips_def)
    with valid validateTooltips_try_returned [of page r'] Pair None show ?thesis by simp
  next
    case (Some e)
    with Pair have "t_isValid r' = t_isValid tooltip_result_init"
      by (intro validateTooltips_try_thrown [of page _ e]) simp
    with Pair Some valid show ?thesis
      by (simp add: validateTooltips_def tooltip_result_init_def)
  qed
qed

text \<open>
  C3. \<open>validateTooltips\<close> returns \<open>isValid = false\<close> whenever no tooltip element is located
  by any of the three selectors, and whenever the result's \<open>tooltipCount\<close> is zero; it returns
  \<open>isValid = true\<close> only with \<open>validTooltips = tooltipCount\<close> and an empty \<open>errors\<close> array.
\<close>

theorem validateTooltips_validity:
  "(locate_tooltips page = Inr [] \<longrightarrow> \<not> t_isValid (validateTooltips page)) \<and>
   (tooltipCount (validateTooltips page) = 0 \<longrightarrow> \<not> t_isValid (validateTooltips page)) \<and>
   (t_isValid (validateTooltips page) \<longrightarrow>
      validTooltips (validateTooltips page) = tooltipCount (validateTooltips page) \<and>
      errors (validateTooltips page) = [])"
  using validateTooltips_valid_imp [of page] validateTooltips_none_located [of page]
  by auto



subsection \<open>Section content\<close>

lemma validateSection_content:
  assumes "content (validateSection page name selectors minLength) = Some c"
  shows "characterCount (validateSection page name selectors minLength) = length c"
    and "s_isValid (validateSection page name selectors minLength) =
           (c \<noteq> [] \<and> \<not> int (length c) < minLength \<and>
            \<not> list_ex (\<lambda>pattern. js_includes (toLowerCase c) (toLowerCase pattern))
                 section_placeholderPatterns)"
  using assms
  by (auto simp: validateSection_def validateSection_try_def section_result_init_def
        check_section_def Let_def or_empty_def
      split: sum.splits option.splits if_splits prod.splits)

text \<open>The content stored in the result is the text extracted from the section found.\<close>

lemma validateSection_extracts:
  assumes "find_section page selectors None = Inr (Some section)"
    and "isVisible section = Inr True"
    and "parent_textContent section = Inr text"
  shows "content (validateSection page name selectors minLength) = Some (or_empty text)"
  using assms
  by (simp add: validateSection_def validateSection_try_def section_result_init_def
        check_section_def Let_def)

lemma toLowerCase_append: "toLowerCase (a @ b) = toLowerCase a @ toLowerCase b"
  by (simp add: toLowerCase_def)

text \<open>
  C4. When the content extracted for a section contains a phrase of the placeholder
  denylist, in any letter case, \<open>validateSection\<close> returns \<open>isValid = false\<close>.
\<close>

theorem validateSection_placeholder:
  assumes "content (validateSection page name selectors minLength) = Some c"
    and "pattern \<in> set section_placeholderPatterns"
    and "c = pre @ mid @ post"
    and "toLowerCase mid = toLowerCase pattern"
  shows "\<not> s_isValid (validateSection page name selectors minLength)"
proof -
  have "toLowerCase c = toLowerCase pre @ toLowerCase pattern @ toLowerCase post"
    using assms(3,4) by (simp add: toLowerCase_append)
  then have "js_includes (toLowerCase c) (toLowerCase pattern)"
    unfolding js_includes_iff by blast
  with assms(2) have "list_ex (\<lambda>pattern. js_includes (toLowerCase c) (toLowerCase pattern))
                        section_placeholderPatterns"
    unfolding list_ex_iff by blast
  with validateSection_content(2) [OF assms(1)] show ?thesis by simp
qed

text \<open>
  C5. When the content extracted for a section is shorter than \<open>minLength\<close>,
  \<open>validateSection\<close> returns \<open>isValid = false\<close>, and \<open>characterCount\<close> is the length of the
  content.
\<close>

theorem validateSection_too_short:
  assumes "0 \<le> minLength"
    and "content (validateSection page name selectors minLength) = Some c"
    and "int (length c) < minLength"
  shows "\<not> s_isValid (validateSection page name selectors minLength) \<and>
         characterCount (validateSection page name selectors minLength) = length c"
  using validateSection_content [OF assms(2)] assms(3) by simp

subsection \<open>The validators on the example page\<close>

lemma example_no_tooltips: "locate_tooltips (example_page [] txt) = Inr []"
  by (simp add: locate_tooltips_def example_page_def dq_def)

lemma example_tooltips: "locate_tooltips (example_page (x # xs) txt) = Inr (x # xs)"
  by (simp add: locate_tooltips_def example_page_def dq_def)

lemma example_check_tooltip:
  "check_tooltip (Some '' SWOT '') ''Strengths, weaknesses, opportunities, threats''
     = \<lparr>d_term = ''SWOT'', d_tooltip = ''Strengths, weaknesses, opportunities, threats'',
        d_isValid = True, d_error = None\<rparr>"
  by (simp add: check_tooltip_def js_trim_def isWhiteSpace_def tooltip_placeholderPatterns_def
        toLowerCase_def toLowerCase_char_def Let_def or_empty_def)

lemma example_textContent: "textContent (tooltip_span t tip) = Inr (Some t)"
  by (simp add: tooltip_span_def)

lemma example_get_tooltipText: "get_tooltipText (tooltip_span t (c # cs)) = Inr (c # cs)"
  by (simp add: get_tooltipText_def tooltip_span_def truthy_def or_empty_def)

lemma example_valid_tooltips:
  "validateTooltips
     (example_page [tooltip_span '' SWOT '' ''Strengths, weaknesses, opportunities, threats''] txt)
   = \<lparr>t_isValid = True, tooltipCount = 1, validTooltips = 1, errors = [],
      details = [\<lparr>d_term = ''SWOT'',
                  d_tooltip = ''Strengths, weaknesses, opportunities, threats'',
                  d_isValid = True, d_error = None\<rparr>]\<rparr>"
  by (simp add: validateTooltips_def validateTooltips_try_def example_tooltips
        tooltip_result_init_def example_textContent example_get_tooltipText example_check_tooltip)

theorem validateTooltips_validity_witness:
  "\<not> t_isValid (validateTooltips (example_page [] [])) \<and>
   validTooltips (validateTooltips
     (example_page [tooltip_span '' SWOT '' ''Strengths, weaknesses, opportunities, threats''] []))
     = 1 \<and>
   tooltipCount (validateTooltips
     (example_page [tooltip_span '' SWOT '' ''Strengths, weaknesses, opportunities, threats''] []))
     = 1"
  using validateTooltips_validity [of "example_page [] []"]
    validateTooltips_validity
      [of "example_page [tooltip_span '' SWOT '' ''Strengths, weaknesses, opportunities, threats''] []"]
    example_no_tooltips [of "[]"]
  by (simp add: example_valid_tooltips)




lemma example_section_content:
  "content (validateSection (example_page [] txt) name [''[data-testid=missing]'', ''text=Strategy'']
     minLength) = Some txt"
  by (simp add: validateSection_def validateSection_try_def example_page_def
        section_result_init_def check_section_def or_empty_def Let_def)

theorem validateSection_placeholder_witness:
  "\<not> s_isValid (validateSection
        (example_page [] ''Strategy: this part of the answer is COMING SOON... please check later'')
        ''Strategy'' [''[data-testid=missing]'', ''text=Strategy''] 50)"
proof -
  have "''Coming soon...'' \<in> set section_placeholderPatterns"
    by (simp add: section_placeholderPatterns_def)
  moreover have "''Strategy: this part of the answer is COMING SOON... please check later''
      = ''Strategy: this part of the answer is '' @ ''COMING SOON...'' @ '' please check later''"
    by simp
  moreover have "toLowerCase ''COMING SOON...'' = toLowerCase ''Coming soon...''"
    by (simp add: toLowerCase_def toLowerCase_char_def)
  ultimately show ?thesis
    by (rule validateSection_placeholder [OF example_section_content])
qed

theorem validateSection_too_short_witness:
  "\<not> s_isValid (validateSection (example_page [] ''Strategy: TBD'') ''Strategy''
        [''[data-testid=missing]'', ''text=Strategy''] 50) \<and>
   characterCount (validateSection (example_page [] ''Strategy: TBD'') ''Strategy''
        [''[data-testid=missing]'', ''text=Strategy''] 50) = 13"
  using validateSection_too_short
    [OF _ example_section_content, of 50 "''Strategy: TBD''" "''Strategy''"]
  by simp

section \<open>The layout centering tests\<close>

text \<open>
  C8. For every bounding box and every viewport, the centering offset is
  \<open>|(box.x + box.width / 2) - viewport.width / 2|\<close>, and the centering test on a page
  with these measurements passes when this value is at most 5 and fails on its
  \<open>expect\<close> otherwise. For a wrapper whose bounding box has \<open>x = 0\<close> and the width of the
  viewport the offset is 0, and the centering test passes.
\<close>

theorem exact_center_offset_zero:
  "centering_offset box viewport
     = \<bar>(box_x box + box_width box / 2) - real_of_int (vp_width viewport) / 2\<bar> \<and>
   (viewportSize page = Some viewport \<and> boundingBox page (wrapper_or_body page) = Some box \<longrightarrow>
      centered_test page =
        (if \<bar>(box_x box + box_width box / 2) - real_of_int (vp_width viewport) / 2\<bar> \<le> 5
         then Passed
         else ExpectFailed
                \<bar>(box_x box + box_width box / 2) - real_of_int (vp_width viewport) / 2\<bar> 5)) \<and>
   (box_x box = 0 \<and> box_width box = real_of_int (vp_width viewport) \<longrightarrow>
      centering_offset box viewport = 0 \<and>
      (viewportSize page = Some viewport \<and>
       boundingBox page (wrapper_or_body page) = Some box \<longrightarrow>
         centered_test page = Passed))"
proof (intro conjI impI)
  show formula: "centering_offset box viewport
      = \<bar>(box_x box + box_width box / 2) - real_of_int (vp_width viewport) / 2\<bar>"
    by (simp add: centering_offset_def)
  {
    assume "viewportSize page = Some viewport \<and>
            boundingBox page (wrapper_or_body page) = Some box"
    then show "centered_test page =
        (if \<bar>(box_x box + box_width box / 2) - real_of_int (vp_width viewport) / 2\<bar> \<le> 5
         then Passed
         else ExpectFailed
                \<bar>(box_x box + box_width box / 2) - real_of_int (vp_width viewport) / 2\<bar> 5)"
      by (simp add: centered_test_def formula)
  }
  {
    assume exact: "box_x box = 0 \<and> box_width box = real_of_int (vp_width viewport)"
    then show zero: "centering_offset box viewport = 0"
      by (simp add: formula)
    assume "viewportSize page = Some viewport \<and>
            boundingBox page (wrapper_or_body page) = Some box"
    then show "centered_test page = Passed"
      using zero by (simp add: centered_test_def)
  }
qed

lemma example_layout_wrapper: "wrapper_or_body (example_layout x w vw) = ''main''"
  by (simp add: wrapper_or_body_def wrapperSelectors_def example_layout_def)

theorem exact_center_offset_zero_witness:
  "centering_offset \<lparr>box_x = 0, box_y = 0, box_width = 1280, box_height = 900\<rparr>
     \<lparr>vp_width = 1280, vp_height = 720\<rparr> = 0 \<and>
   centered_test (example_layout 0 1280 1280) = Passed \<and>
   centering_offset \<lparr>box_x = 10, box_y = 0, box_width = 1280, box_height = 900\<rparr>
     \<lparr>vp_width = 1280, vp_height = 720\<rparr> = 10 \<and>
   centered_test (example_layout 10 1280 1280) = ExpectFailed 10 5 \<and>
   centering_offset \<lparr>box_x = 100, box_y = 0, box_width = 600, box_height = 900\<rparr>
     \<lparr>vp_width = 1024, vp_height = 768\<rparr> = 112"
  using exact_center_offset_zero
    [of "\<lparr>box_x = 0, box_y = 0, box_width = 1280, box_height = 900\<rparr>"
        "\<lparr>vp_width = 1280, vp_height = 720\<rparr>" "example_layout 0 1280 1280"]
    exact_center_offset_zero
    [of "\<lparr>box_x = 10, box_y = 0, box_width = 1280, box_height = 900\<rparr>"
        "\<lparr>vp_width = 1280, vp_height = 720\<rparr>" "example_layout 10 1280 1280"]
    exact_center_offset_zero
    [of "\<lparr>box_x = 100, box_y = 0, box_width = 600, box_height = 900\<rparr>"
        "\<lparr>vp_width = 1024, vp_height = 768\<rparr>" "example_layout 0 1280 1280"]
  by (simp add: example_layout_wrapper) (simp add: example_layout_def)

text \<open>
  C7. The dynamic-content test passes exactly when the measurements are available, the
  query is submitted and answered without an exception, the offset measured after the
  content is loaded is at most 5, and its distance to the offset measured before is at
  most 5 when the viewport is at most 768 wide and at most 2 otherwise.
\<close>

theorem dynamic_content_passes_iff:
  "(dynamic_content_test page interaction page_after = Passed) =
   (\<exists>initialBox viewport finalBox.
      boundingBox page (wrapper_or_body page) = Some initialBox \<and>
      viewportSize page = Some viewport \<and>
      interaction = None \<and>
      boundingBox page_after (wrapper_or_body page) = Some finalBox \<and>
      centering_offset finalBox viewport \<le> 5 \<and>
      \<bar>centering_offset finalBox viewport - centering_offset initialBox viewport\<bar>
        \<le> (if vp_width viewport \<le> 768 then 5 else 2))"
  by (auto simp: dynamic_content_test_def Let_def split: option.splits)

lemma example_dynamic_desktop_fails:
  "dynamic_content_test (example_layout 0 1280 1280) None (example_layout 3 1280 1280)
     = ExpectFailed 3 2"
  by (simp add: dynamic_content_test_def example_layout_wrapper)
     (simp add: example_layout_def centering_offset_def)

theorem dynamic_content_passes_iff_witness:
  "dynamic_content_test (example_layout 0 768 768) None (example_layout 3 768 768) = Passed \<and>
   dynamic_content_test (example_layout 0 1280 1280) None (example_layout 3 1280 1280) \<noteq> Passed"
proof -
  have "boundingBox (example_layout 0 768 768) (wrapper_or_body (example_layout 0 768 768))
          = Some \<lparr>box_x = 0, box_y = 0, box_width = 768, box_height = 900\<rparr> \<and>
        viewportSize (example_layout 0 768 768) = Some \<lparr>vp_width = 768, vp_height = 720\<rparr> \<and>
        (None :: exn option) = None \<and>
        boundingBox (example_layout 3 768 768) (wrapper_or_body (example_layout 0 768 768))
          = Some \<lparr>box_x = 3, box_y = 0, box_width = 768, box_height = 900\<rparr> \<and>
        centering_offset \<lparr>box_x = 3, box_y = 0, box_width = 768, box_height = 900\<rparr>
          \<lparr>vp_width = 768, vp_height = 720\<rparr> \<le> 5 \<and>
        \<bar>centering_offset \<lparr>box_x = 3, box_y = 0, box_width = 768, box_height = 900\<rparr>
            \<lparr>vp_width = 768, vp_height = 720\<rparr>
          - centering_offset \<lparr>box_x = 0, box_y = 0, box_width = 768, box_height = 900\<rparr>
            \<lparr>vp_width = 768, vp_height = 720\<rparr>\<bar>
          \<le> (if vp_width \<lparr>vp_width = 768, vp_height = 720\<rparr> \<le> 768 then 5 else 2)"
    by (simp add: example_layout_wrapper) (simp add: example_layout_def centering_offset_def)
  then have "dynamic_content_test (example_layout 0 768 768) None (example_layout 3 768 768)
               = Passed"
    unfolding dynamic_content_passes_iff by blast
  then show ?thesis
    by (simp add: example_dynamic_desktop_fails)
qed

end
